theory Spec2Isabelle
  imports Complex_Main
begin

section \<open>The PEA simulator: engine and scenario comparator\<close>

text \<open>
  The source is \<^verbatim>\<open>src/main.py\<close>: \<^verbatim>\<open>simulate_pea\<close> (the engine),
  \<^verbatim>\<open>format_duree_mois\<close> and \<^verbatim>\<open>calcul_scenarios\<close> (the comparator).

  Numbers. Python's \<^verbatim>\<open>float\<close> is an IEEE binary64 number. An argument is read as the
  \<^typ>\<open>real\<close> it denotes, so every argument is finite (neither NaN nor an infinity), and
  the arithmetic of the model is exact where the source rounds each operation to the nearest
  double. Two places where this matters are written out:
  \<^item> line 32, \<^verbatim>\<open>int(duree_annees * 12)\<close>: the product of two finite doubles is an infinity
    when its exact value reaches \<open>debordement\<close>, and \<^verbatim>\<open>int\<close> of an infinity raises
    \<^verbatim>\<open>OverflowError\<close>; \<open>simulate_pea_appel\<close> has that branch, and \<open>simulate_pea\<close> is the
    result of a call in which line 32 does not raise;
  \<^item> the running sums \<^verbatim>\<open>net_investi\<close> and \<^verbatim>\<open>leftover\<close> (lines 48-49 and 65-66) are
    rounded separately in the source, so a statement that needs their exact sum is made only
    for runs in which every value they take is a whole number of magnitude at most \<open>2 ^ 53\<close>,
    which binary64 adds and subtracts without rounding.

  Python's \<^verbatim>\<open>int\<close> is \<^typ>\<open>int\<close>. On the reals Python's \<^verbatim>\<open>min(a, b)\<close> (\<^verbatim>\<open>a\<close> unless
  \<^verbatim>\<open>b < a\<close>) and \<^verbatim>\<open>max(a, b)\<close> (\<^verbatim>\<open>a\<close> unless \<^verbatim>\<open>b > a\<close>) are \<^const>\<open>min\<close> and
  \<^const>\<open>max\<close>. The literal \<^verbatim>\<open>1e-9\<close> is written \<open>1 / 10 ^ 9\<close>.
\<close>

subsection \<open>Data\<close>

datatype py_error = IndexError | OverflowError

text \<open>The dataclass \<^verbatim>\<open>SimulationResult\<close> (lines 10-15).\<close>

record SimulationResult =
  capital_final_brut :: real
  net_investi :: real
  mois_plafond :: "int option"
  historique :: "real list"

text \<open>
  The local variables of \<^verbatim>\<open>simulate_pea\<close> that the loop updates (lines 38-42):
  \<^verbatim>\<open>capital\<close>, \<^verbatim>\<open>net_investi\<close>, \<^verbatim>\<open>mois_plafond\<close>, \<^verbatim>\<open>leftover\<close>, \<^verbatim>\<open>historique\<close>.
  The three names shared with the result record carry the prefix \<open>l_\<close>.
\<close>

record etat =
  capital :: real
  l_net_investi :: real
  l_mois_plafond :: "int option"
  leftover :: real
  l_historique :: "real list"

subsection \<open>The engine\<close>

text \<open>\<^verbatim>\<open>int(x)\<close> on a float: truncation towards zero.\<close>

definition py_int :: "real \<Rightarrow> int" where
  "py_int x = (if 0 \<le> x then \<lfloor>x\<rfloor> else \<lceil>x\<rceil>)"

text \<open>Lines 38-52: the initial values, the initial deposit and \<^verbatim>\<open>historique.append(capital)\<close>.\<close>

definition depot_initial :: "real \<Rightarrow> real \<Rightarrow> etat" where
  "depot_initial capital_initial plafond_pea =
     (let st = \<lparr>capital = 0, l_net_investi = 0, l_mois_plafond = None,
                 leftover = plafond_pea, l_historique = []\<rparr>;
          st = (if leftover st > 0 then
                  (let deposit_init = min capital_initial (leftover st);
                       st = st\<lparr>capital := capital st + deposit_init\<rparr>;
                       st = st\<lparr>l_net_investi := l_net_investi st + deposit_init\<rparr>;
                       st = st\<lparr>leftover := leftover st - deposit_init\<rparr>
                   in if leftover st \<le> 1 / 10 ^ 9 then st\<lparr>l_mois_plafond := Some 0\<rparr> else st)
                else st)
      in st\<lparr>l_historique := l_historique st @ [capital st]\<rparr>)"

text \<open>
  Lines 56-69: the body of the monthly loop, for the month \<open>mois\<close>. Each product, sum and
  difference is exact here and rounded to the nearest double in the source.
\<close>

definition mois_suivant :: "real \<Rightarrow> real \<Rightarrow> real \<Rightarrow> int \<Rightarrow> etat \<Rightarrow> etat" where
  "mois_suivant r_m frais_mensuel versement_mensuel mois st0 =
     (let st = st0\<lparr>capital := capital st0 * (1 + r_m)\<rparr>;
          st = (if frais_mensuel > 0 then st\<lparr>capital := capital st * (1 - frais_mensuel)\<rparr>
                else st);
          st = (if leftover st > 1 / 10 ^ 9 then
                  (let deposit = min versement_mensuel (leftover st);
                       st = st\<lparr>capital := capital st + deposit\<rparr>;
                       st = st\<lparr>l_net_investi := l_net_investi st + deposit\<rparr>;
                       st = st\<lparr>leftover := leftover st - deposit\<rparr>
                   in if leftover st \<le> 1 / 10 ^ 9 \<and> l_mois_plafond st = None
                      then st\<lparr>l_mois_plafond := Some mois\<rparr> else st)
                else st)
      in st\<lparr>l_historique := l_historique st @ [capital st]\<rparr>)"

text \<open>Line 55: \<^verbatim>\<open>for mois in range(1, nb_mois + 1)\<close>, over the list of months still to run.\<close>

fun boucle_mensuelle :: "real \<Rightarrow> real \<Rightarrow> real \<Rightarrow> int list \<Rightarrow> etat \<Rightarrow> etat" where
  "boucle_mensuelle r_m frais_mensuel versement_mensuel [] st = st"
| "boucle_mensuelle r_m frais_mensuel versement_mensuel (mois # reste) st =
     boucle_mensuelle r_m frais_mensuel versement_mensuel reste
       (mois_suivant r_m frais_mensuel versement_mensuel mois st)"

text \<open>
  The state of \<^verbatim>\<open>simulate_pea\<close> once the months \<open>1..m\<close> have run (lines 32-69 with the
  loop stopped after month \<open>m\<close>); \<open>m = nb_mois\<close> is the state at line 71.
\<close>

definition etat_au_mois ::
  "real \<Rightarrow> real \<Rightarrow> real \<Rightarrow> real \<Rightarrow> real \<Rightarrow> real \<Rightarrow> int \<Rightarrow> etat" where
  "etat_au_mois taux_annuel_percent capital_initial versement_mensuel plafond_pea
       frais_annuels_percent inflation_percent m =
     (let r_m = ((taux_annuel_percent - inflation_percent) / 100) / 12;
          frais_mensuel = (frais_annuels_percent / 100) / 12
      in boucle_mensuelle r_m frais_mensuel versement_mensuel [1..m]
           (depot_initial capital_initial plafond_pea))"

text \<open>Line 72: the gross gains the engine taxes.\<close>

definition interets_bruts :: "etat \<Rightarrow> real" where
  "interets_bruts st = max (capital st - l_net_investi st) 0"

text \<open>Lines 72-81: tax on the gains and the result record.\<close>

definition resultat :: "real \<Rightarrow> etat \<Rightarrow> SimulationResult" where
  "resultat taux_impot_percent st =
     (let impots = (taux_impot_percent / 100) * interets_bruts st;
          capital_net = capital st - impots
      in \<lparr>capital_final_brut = capital_net, net_investi = l_net_investi st,
          mois_plafond = l_mois_plafond st, historique = l_historique st\<rparr>)"

text \<open>
  \<^verbatim>\<open>simulate_pea\<close> (lines 17-81), with the parameters in the order of the signature: the
  record returned by a call in which line 32 does not raise.
\<close>

definition simulate_pea ::
  "real \<Rightarrow> real \<Rightarrow> real \<Rightarrow> real \<Rightarrow> real \<Rightarrow> real \<Rightarrow> real \<Rightarrow> real \<Rightarrow> SimulationResult" where
  "simulate_pea duree_annees taux_annuel_percent capital_initial versement_mensuel plafond_pea
       frais_annuels_percent taux_impot_percent inflation_percent =
     (let nb_mois = py_int (duree_annees * 12)
      in resultat taux_impot_percent
           (etat_au_mois taux_annuel_percent capital_initial versement_mensuel plafond_pea
              frais_annuels_percent inflation_percent nb_mois))"

text \<open>
  Line 32 with its exception. The largest finite double is \<open>2 ^ 1024 - 2 ^ 971\<close>; rounding to
  nearest, ties to even, takes every real of magnitude \<open>2 ^ 1024 - 2 ^ 970\<close> or more to an
  infinity. \<^verbatim>\<open>duree_annees * 12\<close> is then an infinity and \<^verbatim>\<open>int\<close> raises
  \<^verbatim>\<open>OverflowError\<close>; the multiplication itself does not raise.
\<close>

definition debordement :: real where
  "debordement = 2 ^ 1024 - 2 ^ 970"

definition nb_mois_de :: "real \<Rightarrow> py_error + int" where
  "nb_mois_de duree_annees =
     (if debordement \<le> \<bar>duree_annees * 12\<bar> then Inl OverflowError
      else Inr (py_int (duree_annees * 12)))"

text \<open>
  A call of \<^verbatim>\<open>simulate_pea\<close> (lines 17-81): the exception of line 32, or the record
  returned. No other line raises on finite arguments: float arithmetic, comparisons,
  \<^verbatim>\<open>min\<close>, \<^verbatim>\<open>max\<close> and \<^verbatim>\<open>append\<close> do not.
\<close>

definition simulate_pea_appel ::
  "real \<Rightarrow> real \<Rightarrow> real \<Rightarrow> real \<Rightarrow> real \<Rightarrow> real \<Rightarrow> real \<Rightarrow> real
     \<Rightarrow> py_error + SimulationResult" where
  "simulate_pea_appel duree_annees taux_annuel_percent capital_initial versement_mensuel
       plafond_pea frais_annuels_percent taux_impot_percent inflation_percent =
     (case nb_mois_de duree_annees of
        Inl e \<Rightarrow> Inl e
      | Inr nb_mois \<Rightarrow>
          Inr (resultat taux_impot_percent
                 (etat_au_mois taux_annuel_percent capital_initial versement_mensuel plafond_pea
                    frais_annuels_percent inflation_percent nb_mois)))"

subsection \<open>The duration helper\<close>

text \<open>\<^verbatim>\<open>str(n)\<close> for an integer: decimal digits, with a minus sign when negative.\<close>

fun chiffres :: "nat \<Rightarrow> string" where
  "chiffres n =
     (if n < 10 then [char_of (48 + n)] else chiffres (n div 10) @ [char_of (48 + n mod 10)])"

definition py_str :: "int \<Rightarrow> string" where
  "py_str i = (if i < 0 then CHR ''-'' # chiffres (nat (- i)) else chiffres (nat i))"

text \<open>
  \<^verbatim>\<open>format_duree_mois\<close> (lines 83-92); \<^verbatim>\<open>//\<close> and \<^verbatim>\<open>%\<close> round towards minus infinity, as
  \<open>div\<close> and \<open>mod\<close> on \<^typ>\<open>int\<close> do.
\<close>

definition format_duree_mois :: "int \<Rightarrow> string" where
  "format_duree_mois nb_mois =
     (let annees = nb_mois div 12;
          mois = nb_mois mod 12
      in if annees = 0 then py_str mois @ '' mois''
         else if annees = 1 then
           ''1 an'' @ (if mois \<noteq> 0 then '' et '' @ py_str mois @ '' mois'' else '''')
         else
           py_str annees @ '' ans'' @ (if mois \<noteq> 0 then '' et '' @ py_str mois @ '' mois'' else ''''))"

subsection \<open>The comparator\<close>

text \<open>
  The values of a scenario dictionary. The formatted strings are kept as the number that is
  formatted: \<open>Montant x\<close> is the text \<^verbatim>\<open>f"{x:,.2f} (euro sign)"\<close>, \<open>Taux t\<close> is the text
  \<^verbatim>\<open>f"{t}%"\<close>. A dictionary is an association list in insertion order.
\<close>

datatype valeur = Montant real | Taux real | Texte string | Serie "real list"

type_synonym scenario = "(string \<times> valeur) list"

text \<open>\<^verbatim>\<open>xs[-1]\<close>: the last element, \<^verbatim>\<open>IndexError\<close> on the empty list.\<close>

definition dernier :: "'a list \<Rightarrow> py_error + 'a" where
  "dernier xs = (if xs = [] then Inl IndexError else Inr (last xs))"

text \<open>Lines 117-127: the dictionary built from one simulation.\<close>

definition scenario_de :: "real \<Rightarrow> real \<Rightarrow> SimulationResult \<Rightarrow> py_error + scenario" where
  "scenario_de taux taux_impot sim =
     (case dernier (historique sim) of
        Inl e \<Rightarrow> Inl e
      | Inr fin \<Rightarrow>
          (let interets = max (fin - net_investi sim) 0;
               duree_str = (case mois_plafond sim of
                              Some m \<Rightarrow> format_duree_mois m
                            | None \<Rightarrow> ''non atteint'')
           in Inr [(''taux_str'', Taux taux),
                   (''plafond_atteint'', Texte duree_str),
                   (''capital_final_brut'', Montant fin),
                   (''interets_bruts'', Montant interets),
                   (''impots'', Montant ((taux_impot / 100) * interets)),
                   (''capital_final_net'', Montant (capital_final_brut sim)),
                   (''historique'', Serie (historique sim))]))"

text \<open>
  Lines 112-127: the loop over \<^verbatim>\<open>rates\<close>, appending to \<^verbatim>\<open>scenarios_data\<close>; an exception
  ends it. The call of line 113 is read as returning: the exception of line 32 depends on
  \<^verbatim>\<open>duree_annees\<close> alone and has its branch in \<open>simulate_pea_appel\<close>.
\<close>

fun boucle_scenarios ::
  "real \<Rightarrow> real \<Rightarrow> real \<Rightarrow> real \<Rightarrow> real \<Rightarrow> real \<Rightarrow> real \<Rightarrow> real list \<Rightarrow> scenario list
     \<Rightarrow> py_error + scenario list" where
  "boucle_scenarios duree_annees capital_initial versement_mensuel plafond_pea frais inflation
       taux_impot [] scenarios_data = Inr scenarios_data"
| "boucle_scenarios duree_annees capital_initial versement_mensuel plafond_pea frais inflation
       taux_impot (taux # reste) scenarios_data =
     (case scenario_de taux taux_impot
             (simulate_pea duree_annees taux capital_initial versement_mensuel plafond_pea
                frais taux_impot inflation) of
        Inl e \<Rightarrow> Inl e
      | Inr d \<Rightarrow>
          boucle_scenarios duree_annees capital_initial versement_mensuel plafond_pea frais
            inflation taux_impot reste (scenarios_data @ [d]))"

text \<open>
  \<^verbatim>\<open>calcul_scenarios\<close> (lines 94-159). The layout of the report text (lines 129-158, Python's
  format mini-language over the arguments and \<^verbatim>\<open>scenarios_data\<close>) is the parameter
  \<open>mise_en_page\<close>; the error message of line 110 is the literal of the source.
\<close>

definition calcul_scenarios ::
  "(real \<Rightarrow> real \<Rightarrow> real \<Rightarrow> real \<Rightarrow> real \<Rightarrow> real \<Rightarrow> scenario list \<Rightarrow> string)
     \<Rightarrow> real \<Rightarrow> real \<Rightarrow> real \<Rightarrow> real \<Rightarrow> real list \<Rightarrow> real \<Rightarrow> real \<Rightarrow> real
     \<Rightarrow> py_error + (string \<times> scenario list)" where
  "calcul_scenarios mise_en_page duree_annees capital_initial versement_mensuel plafond_pea
       rates frais inflation taux_impot =
     (if length rates \<noteq> 3 then
        Inr (''ERREUR : Veuillez renseigner exactement 3 taux.'', [])
      else
        (case boucle_scenarios duree_annees capital_initial versement_mensuel plafond_pea
                frais inflation taux_impot rates [] of
           Inl e \<Rightarrow> Inl e
         | Inr scenarios_data \<Rightarrow>
             Inr (mise_en_page duree_annees plafond_pea capital_initial versement_mensuel
                    frais inflation scenarios_data,
                  scenarios_data)))"

subsection \<open>The monthly step in the words of the specification\<close>

text \<open>
  Step 6 of the engine's algorithm as the specification states it, on the tuple (capital,
  totalContributed, remainingCap, capReachedMonth) and with the specification's names. It is
  written from the specification, to be compared with \<open>mois_suivant\<close>, which is written
  from the source.
\<close>

definition spec_monthly_step ::
  "real \<Rightarrow> real \<Rightarrow> real \<Rightarrow> real \<Rightarrow> int \<Rightarrow> real \<times> real \<times> real \<times> int option
     \<Rightarrow> real \<times> real \<times> real \<times> int option" where
  "spec_monthly_step annualRate inflationRate annualFeeRate monthlyContribution m s =
     (case s of (c, totalContributed, remainingCap, capReachedMonth) \<Rightarrow>
        (let r_m = ((annualRate - inflationRate) / 100) / 12;
             f_m = (annualFeeRate / 100) / 12;
             grown = c * (1 + r_m);
             charged = (if f_m > 0 then grown * (1 - f_m) else grown)
         in if remainingCap > 1 / 10 ^ 9 then
              (let deposit = min monthlyContribution remainingCap
               in (charged + deposit, totalContributed + deposit, remainingCap - deposit,
                   if remainingCap - deposit \<le> 1 / 10 ^ 9 \<and> capReachedMonth = None
                   then Some m else capReachedMonth))
            else (charged, totalContributed, remainingCap, capReachedMonth)))"

section \<open>Properties\<close>

subsection \<open>The monthly loop\<close>

lemma boucle_mensuelle_append:
  "boucle_mensuelle r f v (xs @ ys) st = boucle_mensuelle r f v ys (boucle_mensuelle r f v xs st)"
  by (induction xs arbitrary: st) simp_all

lemma mois_suivant_capital:
  "capital (mois_suivant r f v m st) =
     (if leftover st > 1 / 10 ^ 9
      then (if f > 0 then capital st * (1 + r) * (1 - f) else capital st * (1 + r)) + min v (leftover st)
      else (if f > 0 then capital st * (1 + r) * (1 - f) else capital st * (1 + r)))"
  by (simp add: mois_suivant_def Let_def)

lemma mois_suivant_net_investi:
  "l_net_investi (mois_suivant r f v m st) =
     (if leftover st > 1 / 10 ^ 9 then l_net_investi st + min v (leftover st) else l_net_investi st)"
  by (simp add: mois_suivant_def Let_def)

lemma mois_suivant_leftover:
  "leftover (mois_suivant r f v m st) =
     (if leftover st > 1 / 10 ^ 9 then leftover st - min v (leftover st) else leftover st)"
  by (simp add: mois_suivant_def Let_def)

lemma mois_suivant_mois_plafond:
  "l_mois_plafond (mois_suivant r f v m st) =
     (if leftover st > 1 / 10 ^ 9 \<and> leftover st - min v (leftover st) \<le> 1 / 10 ^ 9
         \<and> l_mois_plafond st = None
      then Some m else l_mois_plafond st)"
  by (simp add: mois_suivant_def Let_def)

lemma mois_suivant_historique:
  "l_historique (mois_suivant r f v m st) = l_historique st @ [capital (mois_suivant r f v m st)]"
  by (simp add: mois_suivant_def Let_def)

lemma depot_initial_fields:
  "capital (depot_initial ci p) = (if p > 0 then min ci p else 0)"
  "l_net_investi (depot_initial ci p) = (if p > 0 then min ci p else 0)"
  "leftover (depot_initial ci p) = (if p > 0 then p - min ci p else p)"
  "l_mois_plafond (depot_initial ci p) = (if p > 0 \<and> p - min ci p \<le> 1 / 10 ^ 9 then Some 0 else None)"
  "l_historique (depot_initial ci p) = [capital (depot_initial ci p)]"
  by (simp_all add: depot_initial_def Let_def min_def)

lemma boucle_historique:
  "\<exists>zs. l_historique (boucle_mensuelle r f v xs st) = l_historique st @ zs \<and> length zs = length xs
     \<and> (zs \<noteq> [] \<longrightarrow> last zs = capital (boucle_mensuelle r f v xs st))
     \<and> (zs = [] \<longrightarrow> capital (boucle_mensuelle r f v xs st) = capital st)"
proof (induction xs arbitrary: st)
  case Nil
  then show ?case by simp
next
  case (Cons m xs)
  let ?s = "mois_suivant r f v m st"
  from Cons.IH [of ?s] obtain zs where
    zs: "l_historique (boucle_mensuelle r f v xs ?s) = l_historique ?s @ zs"
        "length zs = length xs"
        "zs \<noteq> [] \<longrightarrow> last zs = capital (boucle_mensuelle r f v xs ?s)"
        "zs = [] \<longrightarrow> capital (boucle_mensuelle r f v xs ?s) = capital ?s"
    by blast
  show ?case
    apply (rule exI [of _ "capital ?s # zs"])
    using zs by (simp add: mois_suivant_historique)
qed

lemma etat_au_mois_0: "m \<le> 0 \<Longrightarrow> etat_au_mois t ci v p fr infl m = depot_initial ci p"
  by (simp add: etat_au_mois_def)

lemma etat_au_mois_step:
  assumes "1 \<le> m"
  shows "etat_au_mois t ci v p fr infl m =
     mois_suivant (((t - infl) / 100) / 12) ((fr / 100) / 12) v m (etat_au_mois t ci v p fr infl (m - 1))"
proof -
  from assms have "[1..m] = [1..m - 1] @ [m]" by (rule upto_rec2)
  then show ?thesis
    unfolding etat_au_mois_def Let_def by (simp only: boucle_mensuelle_append boucle_mensuelle.simps)
qed

lemma etat_au_mois_length: "length (l_historique (etat_au_mois t ci v p fr infl m)) = nat m + 1"
proof -
  obtain zs where "l_historique (etat_au_mois t ci v p fr infl m) = l_historique (depot_initial ci p) @ zs"
     "length zs = length [1..m]"
    unfolding etat_au_mois_def Let_def using boucle_historique by blast
  then show ?thesis by (simp add: depot_initial_fields)
qed

lemma etat_au_mois_last:
  "l_historique (etat_au_mois t ci v p fr infl m) \<noteq> [] \<and>
   last (l_historique (etat_au_mois t ci v p fr infl m)) = capital (etat_au_mois t ci v p fr infl m)"
proof -
  obtain zs where zs: "l_historique (etat_au_mois t ci v p fr infl m) = l_historique (depot_initial ci p) @ zs"
     "zs \<noteq> [] \<longrightarrow> last zs = capital (etat_au_mois t ci v p fr infl m)"
     "zs = [] \<longrightarrow> capital (etat_au_mois t ci v p fr infl m) = capital (depot_initial ci p)"
    unfolding etat_au_mois_def Let_def using boucle_historique by blast
  then show ?thesis by (cases "zs = []") (simp_all add: depot_initial_fields)
qed

lemma etat_au_mois_prefix:
  assumes "m \<le> n"
  shows "\<exists>zs. l_historique (etat_au_mois t ci v p fr infl n) = l_historique (etat_au_mois t ci v p fr infl m) @ zs"
proof (cases "1 \<le> m")
  case True
  with assms have "[1..n] = [1..m] @ [m + 1..n]" by (intro upto_split2) simp_all
  then have "etat_au_mois t ci v p fr infl n =
      boucle_mensuelle (((t - infl) / 100) / 12) ((fr / 100) / 12) v [m + 1..n] (etat_au_mois t ci v p fr infl m)"
    unfolding etat_au_mois_def Let_def by (simp only: boucle_mensuelle_append)
  then show ?thesis using boucle_historique by metis
next
  case False
  then have "etat_au_mois t ci v p fr infl m = depot_initial ci p" by (simp add: etat_au_mois_0)
  moreover have "etat_au_mois t ci v p fr infl n =
      boucle_mensuelle (((t - infl) / 100) / 12) ((fr / 100) / 12) v [1..n] (depot_initial ci p)"
    unfolding etat_au_mois_def Let_def by (rule refl)
  ultimately show ?thesis using boucle_historique by metis
qed

lemma historique_nth:
  assumes "0 \<le> m" "m \<le> n"
  shows "l_historique (etat_au_mois t ci v p fr infl n) ! nat m = capital (etat_au_mois t ci v p fr infl m)"
proof -
  let ?hm = "l_historique (etat_au_mois t ci v p fr infl m)"
  from etat_au_mois_prefix [OF assms(2)] obtain zs where
    "l_historique (etat_au_mois t ci v p fr infl n) = ?hm @ zs" by blast
  moreover have "length ?hm = nat m + 1" by (rule etat_au_mois_length)
  moreover have "?hm \<noteq> [] \<and> last ?hm = capital (etat_au_mois t ci v p fr infl m)" by (rule etat_au_mois_last)
  ultimately show ?thesis using last_conv_nth [of ?hm] by (simp add: nth_append)
qed

subsection \<open>The result record\<close>

lemma py_int_nonneg: "0 \<le> x \<Longrightarrow> py_int x = \<lfloor>x\<rfloor>"
  by (simp add: py_int_def)

lemma py_int_nonpos: "x \<le> 0 \<Longrightarrow> py_int x \<le> 0"
  by (auto simp add: py_int_def ceiling_le_zero intro: order_trans)

lemma simulate_pea_fields:
  "historique (simulate_pea d t ci v p fr ti infl) = l_historique (etat_au_mois t ci v p fr infl (py_int (d * 12)))"
  "net_investi (simulate_pea d t ci v p fr ti infl) = l_net_investi (etat_au_mois t ci v p fr infl (py_int (d * 12)))"
  "mois_plafond (simulate_pea d t ci v p fr ti infl) = l_mois_plafond (etat_au_mois t ci v p fr infl (py_int (d * 12)))"
  "capital_final_brut (simulate_pea d t ci v p fr ti infl) =
     capital (etat_au_mois t ci v p fr infl (py_int (d * 12)))
       - (ti / 100) * interets_bruts (etat_au_mois t ci v p fr infl (py_int (d * 12)))"
  by (simp_all add: simulate_pea_def resultat_def Let_def)

subsection \<open>Length of the history\<close>

text \<open>
  C3. For every duration in the domain of the data model (not negative), the history returned
  by \<^verbatim>\<open>simulate_pea\<close> has exactly \<open>floor (duree_annees * 12) + 1\<close> entries: one for the
  moment after the initial deposit and one per month.
\<close>
theorem history_length:
  "0 \<le> duree_annees \<Longrightarrow>
     length (historique (simulate_pea duree_annees taux capital_initial versement plafond frais
        taux_impot inflation)) = nat \<lfloor>duree_annees * 12\<rfloor> + 1"
  by (simp add: simulate_pea_fields etat_au_mois_length py_int_nonneg)

theorem history_length_witness:
  "(0::real) \<le> 1 \<and> length (historique (simulate_pea 1 6 10000 1000 150000 0 17.2 0)) = 13"
  using history_length [of 1 6 10000 1000 150000 0 "17.2" 0] by simp

subsection \<open>Durations that are zero or negative\<close>

lemma simulate_pea_appel_sans_debordement:
  "\<bar>d * 12\<bar> < debordement \<Longrightarrow>
     simulate_pea_appel d t ci v p fr ti infl = Inr (simulate_pea d t ci v p fr ti infl)"
  by (simp add: simulate_pea_appel_def nb_mois_de_def simulate_pea_def Let_def)

lemma simulate_pea_appel_debordement:
  "debordement \<le> \<bar>d * 12\<bar> \<Longrightarrow> simulate_pea_appel d t ci v p fr ti infl = Inl OverflowError"
  by (simp add: simulate_pea_appel_def nb_mois_de_def)

lemma duree_non_positive:
  assumes "d \<le> 0"
  shows "[1..py_int (d * 12)] = []"
    and "historique (simulate_pea d t ci v p fr ti infl) = [if p > 0 then min ci p else 0]"
    and "net_investi (simulate_pea d t ci v p fr ti infl) = (if p > 0 then min ci p else 0)"
    and "capital_final_brut (simulate_pea d t ci v p fr ti infl) =
           (if p > 0 then min ci p else 0)
             - (ti / 100) * max ((if p > 0 then min ci p else 0)
                                   - net_investi (simulate_pea d t ci v p fr ti infl)) 0"
proof -
  from assms have "d * 12 \<le> 0" by simp
  then have n: "py_int (d * 12) \<le> 0" by (rule py_int_nonpos)
  then have e: "etat_au_mois t ci v p fr infl (py_int (d * 12)) = depot_initial ci p"
    by (rule etat_au_mois_0)
  from n show "[1..py_int (d * 12)] = []" by simp
  show "historique (simulate_pea d t ci v p fr ti infl) = [if p > 0 then min ci p else 0]"
    by (simp add: simulate_pea_fields e depot_initial_fields)
  show "net_investi (simulate_pea d t ci v p fr ti infl) = (if p > 0 then min ci p else 0)"
    by (simp add: simulate_pea_fields e depot_initial_fields)
  show "capital_final_brut (simulate_pea d t ci v p fr ti infl) =
           (if p > 0 then min ci p else 0)
             - (ti / 100) * max ((if p > 0 then min ci p else 0)
                                   - net_investi (simulate_pea d t ci v p fr ti infl)) 0"
    by (simp add: simulate_pea_fields e depot_initial_fields interets_bruts_def)
qed

text \<open>
  C9 as stated, for every duration that is zero or negative, fails on a finite negative
  duration large enough for \<^verbatim>\<open>duree_annees * 12\<close> to overflow: there line 32 raises
  \<^verbatim>\<open>OverflowError\<close> and nothing is returned. Here the duration is \<open>- 2 ^ 1023\<close> (a double,
  about \<open>-8.99e307\<close>).
\<close>
theorem non_positive_duration_counterexample:
  "(- (2 ^ 1023) :: real) \<le> 0
   \<and> simulate_pea_appel (- (2 ^ 1023)) 6 10000 1000 150000 0 17.2 0 = Inl OverflowError"
  by (simp add: simulate_pea_appel_def nb_mois_de_def debordement_def)

text \<open>
  C9, amended. For every duration that is zero or negative and whose product with 12 does not
  overflow (\<open>\<bar>duree_annees * 12\<bar> < 2 ^ 1024 - 2 ^ 970\<close>), and all finite values of the other
  arguments, the call returns a record, line 32 gives a month count that is not positive, the
  range of the monthly loop is empty, the history is the single capital after the initial
  deposit, and the capital after tax is computed from that entry.
\<close>
theorem non_positive_duration:
  "duree_annees \<le> 0 \<Longrightarrow> \<bar>duree_annees * 12\<bar> < debordement \<Longrightarrow>
     (\<exists>sim nb_mois.
        simulate_pea_appel duree_annees taux capital_initial versement plafond frais
          taux_impot inflation = Inr sim
        \<and> (let c0 = (if plafond > 0 then min capital_initial plafond else 0)
           in nb_mois_de duree_annees = Inr nb_mois
              \<and> nb_mois \<le> 0
              \<and> [1..nb_mois] = []
              \<and> historique sim = [c0]
              \<and> net_investi sim = c0
              \<and> capital_final_brut sim = c0 - (taux_impot / 100) * max (c0 - net_investi sim) 0))"
proof -
  assume d: "duree_annees \<le> 0" and b: "\<bar>duree_annees * 12\<bar> < debordement"
  from b have "simulate_pea_appel duree_annees taux capital_initial versement plafond frais
      taux_impot inflation
    = Inr (simulate_pea duree_annees taux capital_initial versement plafond frais
             taux_impot inflation)"
    by (rule simulate_pea_appel_sans_debordement)
  moreover from b have "nb_mois_de duree_annees = Inr (py_int (duree_annees * 12))"
    by (simp add: nb_mois_de_def)
  moreover from d have "py_int (duree_annees * 12) \<le> 0"
    by (intro py_int_nonpos) simp
  ultimately show ?thesis
    by (simp add: Let_def duree_non_positive [OF d])
qed

theorem non_positive_duration_witness:
  "(- 2 :: real) \<le> 0 \<and> \<bar>(- 2 :: real) * 12\<bar> < debordement
   \<and> (\<exists>sim nb_mois. simulate_pea_appel (- 2) 6 10000 1000 150000 0 17.2 0 = Inr sim
         \<and> nb_mois_de (- 2) = Inr nb_mois \<and> nb_mois \<le> 0
         \<and> historique sim = [10000] \<and> net_investi sim = 10000
         \<and> capital_final_brut sim = 10000)"
proof -
  have h: "(- 2 :: real) \<le> 0" "\<bar>(- 2 :: real) * 12\<bar> < debordement"
    by (simp_all add: debordement_def)
  from non_positive_duration [OF h, of 6 10000 1000 150000 0 "17.2" 0] h show ?thesis
    by (auto simp add: Let_def)
qed

subsection \<open>The comparator never fails\<close>

lemma simulate_pea_historique_last:
  "historique (simulate_pea d t ci v p fr ti infl) \<noteq> [] \<and>
   last (historique (simulate_pea d t ci v p fr ti infl)) =
     capital (etat_au_mois t ci v p fr infl (py_int (d * 12)))"
  by (simp add: simulate_pea_fields etat_au_mois_last)

lemma scenario_de_simulate_pea:
  "\<exists>sc. scenario_de taux ti (simulate_pea d taux ci v p fr ti infl) = Inr sc
     \<and> map_of sc ''taux_str'' = Some (Taux taux)
     \<and> map_of sc ''capital_final_brut'' =
         Some (Montant (last (historique (simulate_pea d taux ci v p fr ti infl))))
     \<and> map_of sc ''interets_bruts'' =
         Some (Montant (max (last (historique (simulate_pea d taux ci v p fr ti infl))
                              - net_investi (simulate_pea d taux ci v p fr ti infl)) 0))
     \<and> map_of sc ''impots'' =
         Some (Montant ((ti / 100) *
                 max (last (historique (simulate_pea d taux ci v p fr ti infl))
                        - net_investi (simulate_pea d taux ci v p fr ti infl)) 0))
     \<and> map_of sc ''capital_final_net'' =
         Some (Montant (capital_final_brut (simulate_pea d taux ci v p fr ti infl)))
     \<and> map_of sc ''historique'' = Some (Serie (historique (simulate_pea d taux ci v p fr ti infl)))"
  using simulate_pea_historique_last [of d taux ci v p fr ti infl]
  by (simp add: scenario_de_def dernier_def Let_def)

lemma boucle_scenarios_total:
  "\<exists>ds. boucle_scenarios d ci v p fr infl ti rates acc = Inr (acc @ ds)
     \<and> length ds = length rates
     \<and> (\<forall>i < length rates.
           scenario_de (rates ! i) ti (simulate_pea d (rates ! i) ci v p fr ti infl) = Inr (ds ! i))"
proof (induction rates arbitrary: acc)
  case Nil
  then show ?case by simp
next
  case (Cons taux reste)
  obtain sc where sc: "scenario_de taux ti (simulate_pea d taux ci v p fr ti infl) = Inr sc"
    using scenario_de_simulate_pea by blast
  from Cons.IH [of "acc @ [sc]"] obtain ds where ds:
    "boucle_scenarios d ci v p fr infl ti reste (acc @ [sc]) = Inr ((acc @ [sc]) @ ds)"
    "length ds = length reste"
    "\<forall>i < length reste.
        scenario_de (reste ! i) ti (simulate_pea d (reste ! i) ci v p fr ti infl) = Inr (ds ! i)"
    by blast
  have "\<forall>i < length (taux # reste).
      scenario_de ((taux # reste) ! i) ti (simulate_pea d ((taux # reste) ! i) ci v p fr ti infl)
        = Inr ((sc # ds) ! i)"
  proof (intro allI impI)
    fix i assume "i < length (taux # reste)"
    then show "scenario_de ((taux # reste) ! i) ti
        (simulate_pea d ((taux # reste) ! i) ci v p fr ti infl) = Inr ((sc # ds) ! i)"
      using sc ds(3) by (cases i) simp_all
  qed
  with sc ds(1,2) show ?case
    by (intro exI [of _ "sc # ds"]) simp
qed

lemma calcul_scenarios_trois:
  assumes "length rates = 3"
  shows "\<exists>ds. calcul_scenarios mep d ci v p rates fr infl ti = Inr (mep d p ci v fr infl ds, ds)
     \<and> length ds = 3
     \<and> (\<forall>i < 3.
           scenario_de (rates ! i) ti (simulate_pea d (rates ! i) ci v p fr ti infl) = Inr (ds ! i))"
proof -
  from boucle_scenarios_total [of d ci v p fr infl ti rates "[]"] obtain ds where ds:
    "boucle_scenarios d ci v p fr infl ti rates [] = Inr ds" "length ds = length rates"
    "\<forall>i < length rates.
        scenario_de (rates ! i) ti (simulate_pea d (rates ! i) ci v p fr ti infl) = Inr (ds ! i)"
    by auto
  with assms show ?thesis by (simp add: calcul_scenarios_def)
qed

text \<open>
  C10. \<^verbatim>\<open>simulate_pea\<close> appends the capital after the initial deposit before the loop, so
  the history it returns is never empty; the reads \<^verbatim>\<open>sim.historique[-1]\<close> of
  \<^verbatim>\<open>calcul_scenarios\<close> are therefore in bounds, and \<^verbatim>\<open>calcul_scenarios\<close> returns a value
  (never \<^verbatim>\<open>IndexError\<close>) for every list of rates and all numeric arguments.
\<close>
theorem history_never_empty:
  "historique (simulate_pea duree_annees taux capital_initial versement plafond frais
      taux_impot inflation) \<noteq> []
   \<and> (\<exists>r. calcul_scenarios mise_en_page duree_annees capital_initial versement plafond rates
             frais inflation taux_impot = Inr r)"
proof
  show "historique (simulate_pea duree_annees taux capital_initial versement plafond frais
      taux_impot inflation) \<noteq> []"
    by (simp add: simulate_pea_historique_last)
next
  show "\<exists>r. calcul_scenarios mise_en_page duree_annees capital_initial versement plafond rates
             frais inflation taux_impot = Inr r"
  proof (cases "length rates = 3")
    case True
    from calcul_scenarios_trois [OF True] show ?thesis by blast
  next
    case False
    then show ?thesis by (simp add: calcul_scenarios_def)
  qed
qed

subsection \<open>Arity of the comparator\<close>

text \<open>
  C8. With a list of rates whose length is not 3, \<^verbatim>\<open>calcul_scenarios\<close> returns the error
  message and an empty list of scenarios, without raising. With exactly 3 rates it returns 3
  scenarios, in the order of the rates: the \<open>i\<close>-th scenario carries the \<open>i\<close>-th rate and the
  history of the simulation run at that rate.
\<close>
theorem comparator_arity:
  "(length rates \<noteq> 3 \<longrightarrow>
      calcul_scenarios mise_en_page duree_annees capital_initial versement plafond rates
        frais inflation taux_impot
      = Inr (''ERREUR : Veuillez renseigner exactement 3 taux.'', []))
   \<and> (length rates = 3 \<longrightarrow>
        (\<exists>rapport ds.
           calcul_scenarios mise_en_page duree_annees capital_initial versement plafond rates
             frais inflation taux_impot = Inr (rapport, ds)
           \<and> length ds = 3
           \<and> map (\<lambda>sc. map_of sc ''taux_str'') ds = map (\<lambda>taux. Some (Taux taux)) rates
           \<and> map (\<lambda>sc. map_of sc ''historique'') ds =
               map (\<lambda>taux. Some (Serie (historique
                      (simulate_pea duree_annees taux capital_initial versement plafond frais
                         taux_impot inflation)))) rates))"
proof (intro conjI impI)
  assume "length rates \<noteq> 3"
  then show "calcul_scenarios mise_en_page duree_annees capital_initial versement plafond rates
        frais inflation taux_impot
      = Inr (''ERREUR : Veuillez renseigner exactement 3 taux.'', [])"
    by (simp add: calcul_scenarios_def)
next
  assume len: "length rates = 3"
  from calcul_scenarios_trois [OF len, of mise_en_page duree_annees capital_initial versement
      plafond frais inflation taux_impot]
  obtain ds where ds:
    "calcul_scenarios mise_en_page duree_annees capital_initial versement plafond rates
       frais inflation taux_impot
     = Inr (mise_en_page duree_annees plafond capital_initial versement frais inflation ds, ds)"
    "length ds = 3"
    "\<forall>i < 3. scenario_de (rates ! i) taux_impot
        (simulate_pea duree_annees (rates ! i) capital_initial versement plafond frais
           taux_impot inflation) = Inr (ds ! i)"
    by blast
  have entries: "map_of (ds ! i) ''taux_str'' = Some (Taux (rates ! i))
      \<and> map_of (ds ! i) ''historique'' = Some (Serie (historique
            (simulate_pea duree_annees (rates ! i) capital_initial versement plafond frais
               taux_impot inflation)))" if "i < 3" for i
    using scenario_de_simulate_pea [of "rates ! i" taux_impot duree_annees capital_initial
        versement plafond frais inflation] ds(3) that by auto
  have "map (\<lambda>sc. map_of sc ''taux_str'') ds = map (\<lambda>taux. Some (Taux taux)) rates"
    using len ds(2) entries by (intro nth_equalityI) simp_all
  moreover have "map (\<lambda>sc. map_of sc ''historique'') ds =
      map (\<lambda>taux. Some (Serie (historique
             (simulate_pea duree_annees taux capital_initial versement plafond frais
                taux_impot inflation)))) rates"
    using len ds(2) entries by (intro nth_equalityI) simp_all
  ultimately show "\<exists>rapport ds.
           calcul_scenarios mise_en_page duree_annees capital_initial versement plafond rates
             frais inflation taux_impot = Inr (rapport, ds)
           \<and> length ds = 3
           \<and> map (\<lambda>sc. map_of sc ''taux_str'') ds = map (\<lambda>taux. Some (Taux taux)) rates
           \<and> map (\<lambda>sc. map_of sc ''historique'') ds =
               map (\<lambda>taux. Some (Serie (historique
                      (simulate_pea duree_annees taux capital_initial versement plafond frais
                         taux_impot inflation)))) rates"
    using ds(1,2) by blast
qed

theorem comparator_arity_witness:
  "length [6, 8 :: real] \<noteq> 3
   \<and> calcul_scenarios (\<lambda>d p ci v fr infl ds. []) 10 10000 1000 150000 [6, 8] 0 0 17.2
       = Inr (''ERREUR : Veuillez renseigner exactement 3 taux.'', [])
   \<and> length [6, 8, 10 :: real] = 3
   \<and> (\<exists>rapport ds.
         calcul_scenarios (\<lambda>d p ci v fr infl ds. []) 10 10000 1000 150000 [6, 8, 10] 0 0 17.2
           = Inr (rapport, ds)
         \<and> length ds = 3
         \<and> map (\<lambda>sc. map_of sc ''taux_str'') ds = [Some (Taux 6), Some (Taux 8), Some (Taux 10)])"
  using comparator_arity [of "[6, 8]" "\<lambda>d p ci v fr infl ds. []" 10 10000 1000 150000 0 0 "17.2"]
        comparator_arity [of "[6, 8, 10]" "\<lambda>d p ci v fr infl ds. []" 10 10000 1000 150000 0 0 "17.2"]
  by auto

subsection \<open>The comparator recomputes what the engine computed\<close>

text \<open>
  C5. For each of the three scenarios, the gross interest of the comparator,
  \<open>max (fin - net_investi) 0\<close> with \<open>fin\<close> the last entry of the history, is the gross gain
  the engine taxed (line 72), the tax shown is \<open>taux_impot / 100\<close> times it, and \<open>fin\<close> minus
  that tax is the \<^verbatim>\<open>capital_final_brut\<close> the engine returned (shown as the net capital).
\<close>
theorem comparator_matches_engine:
  "length rates = 3 \<Longrightarrow>
     \<exists>rapport ds.
       calcul_scenarios mise_en_page duree_annees capital_initial versement plafond rates
         frais inflation taux_impot = Inr (rapport, ds)
       \<and> length ds = 3
       \<and> (\<forall>i < 3.
            (let taux = rates ! i;
                 sim = simulate_pea duree_annees taux capital_initial versement plafond frais
                         taux_impot inflation;
                 fin = last (historique sim);
                 gains = interets_bruts
                           (etat_au_mois taux capital_initial versement plafond frais inflation
                              (py_int (duree_annees * 12)))
             in map_of (ds ! i) ''capital_final_brut'' = Some (Montant fin)
                \<and> map_of (ds ! i) ''interets_bruts'' = Some (Montant gains)
                \<and> gains = max (fin - net_investi sim) 0
                \<and> map_of (ds ! i) ''impots'' = Some (Montant ((taux_impot / 100) * gains))
                \<and> map_of (ds ! i) ''capital_final_net'' = Some (Montant (capital_final_brut sim))
                \<and> fin - (taux_impot / 100) * gains = capital_final_brut sim))"
proof -
  assume len: "length rates = 3"
  from calcul_scenarios_trois [OF len, of mise_en_page duree_annees capital_initial versement
      plafond frais inflation taux_impot]
  obtain ds where ds:
    "calcul_scenarios mise_en_page duree_annees capital_initial versement plafond rates
       frais inflation taux_impot
     = Inr (mise_en_page duree_annees plafond capital_initial versement frais inflation ds, ds)"
    "length ds = 3"
    "\<forall>i < 3. scenario_de (rates ! i) taux_impot
        (simulate_pea duree_annees (rates ! i) capital_initial versement plafond frais
           taux_impot inflation) = Inr (ds ! i)"
    by blast
  have "let taux = rates ! i;
            sim = simulate_pea duree_annees taux capital_initial versement plafond frais
                    taux_impot inflation;
            fin = last (historique sim);
            gains = interets_bruts
                      (etat_au_mois taux capital_initial versement plafond frais inflation
                         (py_int (duree_annees * 12)))
        in map_of (ds ! i) ''capital_final_brut'' = Some (Montant fin)
           \<and> map_of (ds ! i) ''interets_bruts'' = Some (Montant gains)
           \<and> gains = max (fin - net_investi sim) 0
           \<and> map_of (ds ! i) ''impots'' = Some (Montant ((taux_impot / 100) * gains))
           \<and> map_of (ds ! i) ''capital_final_net'' = Some (Montant (capital_final_brut sim))
           \<and> fin - (taux_impot / 100) * gains = capital_final_brut sim" if "i < 3" for i
  proof -
    let ?sim = "simulate_pea duree_annees (rates ! i) capital_initial versement plafond frais
                  taux_impot inflation"
    let ?st = "etat_au_mois (rates ! i) capital_initial versement plafond frais inflation
                 (py_int (duree_annees * 12))"
    have fin: "last (historique ?sim) = capital ?st"
      by (simp add: simulate_pea_historique_last)
    have gains: "interets_bruts ?st = max (last (historique ?sim) - net_investi ?sim) 0"
      using fin by (simp add: simulate_pea_fields interets_bruts_def)
    have net: "last (historique ?sim) - (taux_impot / 100) * interets_bruts ?st
                 = capital_final_brut ?sim"
      using fin by (simp add: simulate_pea_fields)
    from scenario_de_simulate_pea [of "rates ! i" taux_impot duree_annees capital_initial
        versement plafond frais inflation] ds(3) that
    have "map_of (ds ! i) ''capital_final_brut'' = Some (Montant (last (historique ?sim)))"
      "map_of (ds ! i) ''interets_bruts'' =
         Some (Montant (max (last (historique ?sim) - net_investi ?sim) 0))"
      "map_of (ds ! i) ''impots'' =
         Some (Montant ((taux_impot / 100) * max (last (historique ?sim) - net_investi ?sim) 0))"
      "map_of (ds ! i) ''capital_final_net'' = Some (Montant (capital_final_brut ?sim))"
      by auto
    with gains net show ?thesis by (simp add: Let_def)
  qed
  with ds(1,2) show ?thesis by blast
qed

theorem comparator_matches_engine_witness:
  "length [6, 8, 10 :: real] = 3
   \<and> (\<exists>rapport ds.
         calcul_scenarios (\<lambda>d p ci v fr infl ds. []) 10 10000 1000 150000 [6, 8, 10] 0 0 17.2
           = Inr (rapport, ds)
         \<and> length ds = 3
         \<and> map_of (ds ! 0) ''capital_final_net'' =
             Some (Montant (capital_final_brut (simulate_pea 10 6 10000 1000 150000 0 17.2 0)))
         \<and> last (historique (simulate_pea 10 6 10000 1000 150000 0 17.2 0))
             - (17.2 / 100) * interets_bruts (etat_au_mois 6 10000 1000 150000 0 0 (py_int (10 * 12)))
             = capital_final_brut (simulate_pea 10 6 10000 1000 150000 0 17.2 0))"
proof -
  have len: "length [6, 8, 10 :: real] = 3" by simp
  from comparator_matches_engine [OF len, of "\<lambda>d p ci v fr infl ds. []" 10 10000 1000 150000 0 0 "17.2"]
  obtain rapport ds where r:
    "calcul_scenarios (\<lambda>d p ci v fr infl ds. []) 10 10000 1000 150000 [6, 8, 10] 0 0 17.2
       = Inr (rapport, ds)"
    "length ds = 3"
    "\<forall>i < 3.
       (let taux = [6, 8, 10 :: real] ! i;
            sim = simulate_pea 10 taux 10000 1000 150000 0 17.2 0;
            fin = last (historique sim);
            gains = interets_bruts (etat_au_mois taux 10000 1000 150000 0 0 (py_int (10 * 12)))
        in map_of (ds ! i) ''capital_final_brut'' = Some (Montant fin)
           \<and> map_of (ds ! i) ''interets_bruts'' = Some (Montant gains)
           \<and> gains = max (fin - net_investi sim) 0
           \<and> map_of (ds ! i) ''impots'' = Some (Montant ((17.2 / 100) * gains))
           \<and> map_of (ds ! i) ''capital_final_net'' = Some (Montant (capital_final_brut sim))
           \<and> fin - (17.2 / 100) * gains = capital_final_brut sim)"
    by blast
  from r(3) have "let taux = [6, 8, 10 :: real] ! 0;
            sim = simulate_pea 10 taux 10000 1000 150000 0 17.2 0;
            fin = last (historique sim);
            gains = interets_bruts (etat_au_mois taux 10000 1000 150000 0 0 (py_int (10 * 12)))
        in map_of (ds ! 0) ''capital_final_brut'' = Some (Montant fin)
           \<and> map_of (ds ! 0) ''interets_bruts'' = Some (Montant gains)
           \<and> gains = max (fin - net_investi sim) 0
           \<and> map_of (ds ! 0) ''impots'' = Some (Montant ((17.2 / 100) * gains))
           \<and> map_of (ds ! 0) ''capital_final_net'' = Some (Montant (capital_final_brut sim))
           \<and> fin - (17.2 / 100) * gains = capital_final_brut sim"
    by (elim allE [of _ 0]) simp
  then have "map_of (ds ! 0) ''capital_final_net'' =
             Some (Montant (capital_final_brut (simulate_pea 10 6 10000 1000 150000 0 17.2 0)))
         \<and> last (historique (simulate_pea 10 6 10000 1000 150000 0 17.2 0))
             - (17.2 / 100) * interets_bruts (etat_au_mois 6 10000 1000 150000 0 0 (py_int (10 * 12)))
             = capital_final_brut (simulate_pea 10 6 10000 1000 150000 0 17.2 0)"
    by (simp add: Let_def)
  with len r(1,2) show ?thesis by blast
qed

subsection \<open>Invariants of the monthly loop\<close>

lemma boucle_mensuelle_invariant:
  assumes "\<And>m st. P st \<Longrightarrow> P (mois_suivant r f v m st)" and "P st"
  shows "P (boucle_mensuelle r f v xs st)"
  using assms(2) by (induction xs arbitrary: st) (simp_all add: assms(1))

lemma etat_au_mois_invariant:
  assumes "\<And>k st. P st \<Longrightarrow> P (mois_suivant (((t - infl) / 100) / 12) ((fr / 100) / 12) v k st)"
    and "P (depot_initial ci p)"
  shows "P (etat_au_mois t ci v p fr infl m)"
  unfolding etat_au_mois_def Let_def using assms by (rule boucle_mensuelle_invariant)


lemma plafond_non_positif:
  assumes "p \<le> 0"
  shows "l_net_investi (etat_au_mois t ci v p fr infl m) = 0
     \<and> l_mois_plafond (etat_au_mois t ci v p fr infl m) = None
     \<and> leftover (etat_au_mois t ci v p fr infl m) \<le> 0"
proof (rule etat_au_mois_invariant)
  show "l_net_investi (depot_initial ci p) = 0 \<and> l_mois_plafond (depot_initial ci p) = None
      \<and> leftover (depot_initial ci p) \<le> 0"
    using assms by (simp add: depot_initial_fields)
next
  fix k :: int and st :: etat
  assume "l_net_investi st = 0 \<and> l_mois_plafond st = None \<and> leftover st \<le> 0"
  then show "l_net_investi (mois_suivant (((t - infl) / 100) / 12) ((fr / 100) / 12) v k st) = 0
      \<and> l_mois_plafond (mois_suivant (((t - infl) / 100) / 12) ((fr / 100) / 12) v k st) = None
      \<and> leftover (mois_suivant (((t - infl) / 100) / 12) ((fr / 100) / 12) v k st) \<le> 0"
    by (simp add: mois_suivant_net_investi mois_suivant_leftover mois_suivant_mois_plafond)
qed

lemma plafond_atteint_au_depot:
  assumes "0 < p" "p \<le> ci"
  shows "l_mois_plafond (etat_au_mois t ci v p fr infl m) = Some 0"
proof (rule etat_au_mois_invariant)
  show "l_mois_plafond (depot_initial ci p) = Some 0"
    using assms by (simp add: depot_initial_fields)
next
  fix k :: int and st :: etat
  assume "l_mois_plafond st = Some 0"
  then show "l_mois_plafond (mois_suivant (((t - infl) / 100) / 12) ((fr / 100) / 12) v k st) = Some 0"
    by (simp add: mois_suivant_mois_plafond)
qed

lemma plafond_epuise:
  assumes "0 \<le> p" "p \<le> ci"
  shows "l_net_investi (etat_au_mois t ci v p fr infl m) = p
     \<and> leftover (etat_au_mois t ci v p fr infl m) = 0"
proof (rule etat_au_mois_invariant)
  show "l_net_investi (depot_initial ci p) = p \<and> leftover (depot_initial ci p) = 0"
    using assms by (simp add: depot_initial_fields)
next
  fix k :: int and st :: etat
  assume "l_net_investi st = p \<and> leftover st = 0"
  then show "l_net_investi (mois_suivant (((t - infl) / 100) / 12) ((fr / 100) / 12) v k st) = p
      \<and> leftover (mois_suivant (((t - infl) / 100) / 12) ((fr / 100) / 12) v k st) = 0"
    by (simp add: mois_suivant_net_investi mois_suivant_leftover)
qed

subsection \<open>The contribution cap\<close>




subsection \<open>Cap reached at the initial deposit\<close>

text \<open>
  C4 as stated fails when the cap is 0: with an initial capital of 1000 (at least the cap,
  both not negative) the guard \<^verbatim>\<open>if leftover > 0\<close> of line 45 skips the block that sets
  \<^verbatim>\<open>mois_plafond = 0\<close>, and the loop never sets it either.
\<close>
theorem cap_detection_counterexample:
  "(0::real) \<le> 0 \<and> (0::real) \<le> 1000
   \<and> mois_plafond (simulate_pea 1 6 1000 100 0 0 17.2 0) \<noteq> Some 0"
  using plafond_non_positif [of 0 6 1000 100 0 0 "py_int (1 * 12)"]
  by (simp add: simulate_pea_fields)

text \<open>
  C4, amended. For every input with a positive cap and an initial capital of at least the
  cap, \<^verbatim>\<open>simulate_pea\<close> returns \<^verbatim>\<open>mois_plafond == 0\<close>.
\<close>
theorem cap_detection:
  "0 < plafond \<Longrightarrow> plafond \<le> capital_initial \<Longrightarrow>
     mois_plafond (simulate_pea duree_annees taux capital_initial versement plafond frais
        taux_impot inflation) = Some 0"
  by (simp add: simulate_pea_fields plafond_atteint_au_depot)

theorem cap_detection_witness:
  "(0::real) < 150000 \<and> (150000::real) \<le> 200000
   \<and> mois_plafond (simulate_pea 10 6 200000 1000 150000 0 17.2 0) = Some 0"
  using cap_detection [of 150000 200000 10 6 1000 0 "17.2" 0] by simp

subsection \<open>Tax and the final capital\<close>

text \<open>
  C6 as stated, for every run, fails on a negative tax rate when there are gains: one month at
  12 percent on 1000 gives a gross capital of 1010 and gains of 10; a tax rate of -10 percent
  makes the tax -1 and the net capital 1011.
\<close>
theorem tax_never_increases_counterexample:
  "\<not> capital_final_brut (simulate_pea (1 / 12) 12 1000 0 100000 0 (- 10) 0)
       \<le> last (historique (simulate_pea (1 / 12) 12 1000 0 100000 0 (- 10) 0))"
proof -
  have n: "py_int (1 / 12 * 12) = 1" by (simp add: py_int_def)
  have e: "etat_au_mois 12 1000 0 100000 0 0 1 =
      mois_suivant (((12 - 0) / 100) / 12) ((0 / 100) / 12) 0 1 (etat_au_mois 12 1000 0 100000 0 0 (1 - 1))"
    by (rule etat_au_mois_step) simp
  have z: "etat_au_mois 12 1000 0 100000 0 0 (1 - 1) = depot_initial 1000 100000"
    by (rule etat_au_mois_0) simp
  have c: "capital (etat_au_mois 12 1000 0 100000 0 0 1) = 1010"
    by (simp only: e z mois_suivant_capital depot_initial_fields) simp
  have i: "l_net_investi (etat_au_mois 12 1000 0 100000 0 0 1) = 1000"
    by (simp only: e z mois_suivant_net_investi depot_initial_fields) simp
  have l: "last (l_historique (etat_au_mois 12 1000 0 100000 0 0 1)) = 1010"
    using etat_au_mois_last [of 12 1000 0 100000 0 0 1] by (simp only: c)
  show ?thesis
    by (simp add: simulate_pea_fields py_int_def c i l interets_bruts_def)
qed

text \<open>
  C6, amended. For every run whose tax rate is not negative, the capital after tax returned by
  \<^verbatim>\<open>simulate_pea\<close> is at most the last entry of the history.
\<close>
theorem tax_never_increases:
  "0 \<le> taux_impot \<Longrightarrow>
     capital_final_brut (simulate_pea duree_annees taux capital_initial versement plafond frais
        taux_impot inflation)
     \<le> last (historique (simulate_pea duree_annees taux capital_initial versement plafond frais
        taux_impot inflation))"
proof -
  assume "0 \<le> taux_impot"
  then have "0 \<le> (taux_impot / 100) * interets_bruts (etat_au_mois taux capital_initial
      versement plafond frais inflation (py_int (duree_annees * 12)))"
    by (simp add: interets_bruts_def)
  then show ?thesis
    using etat_au_mois_last [of taux capital_initial versement plafond frais inflation
        "py_int (duree_annees * 12)"]
    by (simp add: simulate_pea_fields)
qed

theorem tax_never_increases_witness:
  "(0::real) \<le> 17.2
   \<and> capital_final_brut (simulate_pea 10 6 10000 1000 150000 0 17.2 0)
       \<le> last (historique (simulate_pea 10 6 10000 1000 150000 0 17.2 0))"
  using tax_never_increases [of "17.2" 10 6 10000 1000 150000 0 0] by simp

subsection \<open>One month of the loop\<close>

text \<open>
  C1. For every month \<open>m\<close> from 1 to \<^verbatim>\<open>nb_mois\<close>, with \<open>avant\<close> and \<open>apres\<close> the states of
  \<^verbatim>\<open>simulate_pea\<close> before and after the pass of the loop for \<open>m\<close>: the capital before is
  entry \<open>m - 1\<close> of the returned history; capital, total contributed, remaining cap and month
  of the cap after the pass are those of \<open>spec_monthly_step\<close> (growth by \<open>1 + r_m\<close>, then the
  fee factor \<open>1 - f_m\<close> only if \<open>f_m > 0\<close>, then, only if the remaining cap is above
  \<open>1e-9\<close>, the deposit \<open>min monthlyContribution remainingCap\<close> added to capital and total and
  taken from the remaining cap, the month recorded if the cap thereby falls to \<open>1e-9\<close> or less
  and none was recorded); the pass appends the new capital, which is entry \<open>m\<close> of the
  returned history.
\<close>
theorem monthly_step:
  "1 \<le> m \<Longrightarrow> m \<le> py_int (duree_annees * 12) \<Longrightarrow>
     (let sim = simulate_pea duree_annees taux capital_initial versement plafond frais
                  taux_impot inflation;
          avant = etat_au_mois taux capital_initial versement plafond frais inflation (m - 1);
          apres = etat_au_mois taux capital_initial versement plafond frais inflation m
      in historique sim ! nat (m - 1) = capital avant
         \<and> (capital apres, l_net_investi apres, leftover apres, l_mois_plafond apres) =
             spec_monthly_step taux inflation frais versement m
               (capital avant, l_net_investi avant, leftover avant, l_mois_plafond avant)
         \<and> l_historique apres = l_historique avant @ [capital apres]
         \<and> historique sim ! nat m = capital apres)"
proof -
  assume m: "1 \<le> m" "m \<le> py_int (duree_annees * 12)"
  let ?n = "py_int (duree_annees * 12)"
  let ?avant = "etat_au_mois taux capital_initial versement plafond frais inflation (m - 1)"
  let ?apres = "etat_au_mois taux capital_initial versement plafond frais inflation m"
  have step: "?apres = mois_suivant (((taux - inflation) / 100) / 12) ((frais / 100) / 12)
      versement m ?avant"
    using m(1) by (rule etat_au_mois_step)
  have h1: "l_historique (etat_au_mois taux capital_initial versement plafond frais inflation ?n)
      ! nat (m - 1) = capital ?avant"
    using m by (intro historique_nth) simp_all
  have h2: "l_historique (etat_au_mois taux capital_initial versement plafond frais inflation ?n)
      ! nat m = capital ?apres"
    using m by (intro historique_nth) simp_all
  have s: "(capital ?apres, l_net_investi ?apres, leftover ?apres, l_mois_plafond ?apres) =
      spec_monthly_step taux inflation frais versement m
        (capital ?avant, l_net_investi ?avant, leftover ?avant, l_mois_plafond ?avant)"
    unfolding step
    by (simp add: spec_monthly_step_def Let_def mois_suivant_capital mois_suivant_net_investi
        mois_suivant_leftover mois_suivant_mois_plafond)
  have a: "l_historique ?apres = l_historique ?avant @ [capital ?apres]"
    unfolding step by (rule mois_suivant_historique)
  from h1 h2 s a show ?thesis
    by (simp only: Let_def simulate_pea_fields)
qed

theorem monthly_step_witness:
  "(1::int) \<le> 1 \<and> 1 \<le> py_int (1 * 12)
   \<and> historique (simulate_pea 1 6 10000 1000 150000 0 17.2 0) ! 0 = 10000
   \<and> historique (simulate_pea 1 6 10000 1000 150000 0 17.2 0) ! 1 = 11050
   \<and> l_net_investi (etat_au_mois 6 10000 1000 150000 0 0 1) = 11000
   \<and> leftover (etat_au_mois 6 10000 1000 150000 0 0 1) = 139000
   \<and> l_mois_plafond (etat_au_mois 6 10000 1000 150000 0 0 1) = None"
proof -
  have z: "etat_au_mois 6 10000 1000 150000 0 0 0 = depot_initial 10000 150000"
    by (rule etat_au_mois_0) simp
  have n: "py_int (1 * 12) = 12" by (simp add: py_int_def)
  have h: "(1::int) \<le> 1" "1 \<le> py_int (1 * 12)" by (simp_all add: py_int_def)
  from monthly_step [OF h, of 6 10000 1000 150000 0 "17.2" 0] h show ?thesis
    by (simp add: Let_def z depot_initial_fields spec_monthly_step_def)
qed

subsection \<open>Cap exhausted by the initial deposit\<close>

text \<open>
  C7. When the initial capital is at least the cap (both in the domain of the data model, so
  the cap is not negative), then at every month \<open>m\<close> from 0 to \<^verbatim>\<open>nb_mois\<close>, whatever the
  monthly contribution, the total contributed is the cap and the remaining cap is 0, and so
  is the total the engine returns; the capital is the cap at month 0 and at each later month
  the capital of the month before times \<open>1 + r_m\<close>, and times \<open>1 - frais_mensuel\<close> when that
  fee is positive: growth and fees only, no deposit.
\<close>
theorem cap_exhausted_by_initial_deposit:
  "0 \<le> plafond \<Longrightarrow> plafond \<le> capital_initial \<Longrightarrow> 0 \<le> m
     \<Longrightarrow> m \<le> py_int (duree_annees * 12) \<Longrightarrow>
     (let sim = simulate_pea duree_annees taux capital_initial versement plafond frais
                  taux_impot inflation;
          r_m = ((taux - inflation) / 100) / 12;
          frais_mensuel = (frais / 100) / 12;
          st = etat_au_mois taux capital_initial versement plafond frais inflation m;
          avant = etat_au_mois taux capital_initial versement plafond frais inflation (m - 1)
      in l_net_investi st = plafond
         \<and> leftover st = 0
         \<and> net_investi sim = plafond
         \<and> historique sim ! nat m = capital st
         \<and> (m = 0 \<longrightarrow> capital st = plafond)
         \<and> (1 \<le> m \<longrightarrow>
               capital st = (if frais_mensuel > 0 then capital avant * (1 + r_m) * (1 - frais_mensuel)
                             else capital avant * (1 + r_m))))"
proof -
  assume p: "0 \<le> plafond" "plafond \<le> capital_initial"
    and m: "0 \<le> m" "m \<le> py_int (duree_annees * 12)"
  let ?n = "py_int (duree_annees * 12)"
  let ?etat = "etat_au_mois taux capital_initial versement plafond frais inflation"
  have e: "l_net_investi (?etat k) = plafond \<and> leftover (?etat k) = 0" for k
    using p by (rule plafond_epuise)
  have h: "l_historique (?etat ?n) ! nat m = capital (?etat m)"
    using m by (rule historique_nth)
  have c0: "capital (?etat 0) = plafond"
    using p by (simp add: etat_au_mois_0 depot_initial_fields)
  have c: "capital (?etat m) =
      (if (frais / 100) / 12 > 0
       then capital (?etat (m - 1)) * (1 + ((taux - inflation) / 100) / 12) * (1 - (frais / 100) / 12)
       else capital (?etat (m - 1)) * (1 + ((taux - inflation) / 100) / 12))" if "1 \<le> m"
  proof -
    have "?etat m = mois_suivant (((taux - inflation) / 100) / 12) ((frais / 100) / 12)
        versement m (?etat (m - 1))"
      using that by (rule etat_au_mois_step)
    then show ?thesis using e [of "m - 1"] by (simp add: mois_suivant_capital)
  qed
  from e [of m] e [of ?n] h c0 c show ?thesis
    by (simp only: Let_def simulate_pea_fields) auto
qed

theorem cap_exhausted_by_initial_deposit_witness:
  "(0::real) \<le> 150000 \<and> (150000::real) \<le> 200000 \<and> (0::int) \<le> 1 \<and> 1 \<le> py_int (1 * 12)
   \<and> l_net_investi (etat_au_mois 6 200000 1000 150000 0 0 1) = 150000
   \<and> leftover (etat_au_mois 6 200000 1000 150000 0 0 1) = 0
   \<and> net_investi (simulate_pea 1 6 200000 1000 150000 0 17.2 0) = 150000
   \<and> historique (simulate_pea 1 6 200000 1000 150000 0 17.2 0) ! 1 = 150750"
proof -
  have z: "capital (etat_au_mois 6 200000 1000 150000 0 0 0) = 150000"
    using cap_exhausted_by_initial_deposit [of 150000 200000 0 1 6 1000 0 "17.2" 0]
    by (simp add: Let_def py_int_def)
  from cap_exhausted_by_initial_deposit [of 150000 200000 1 1 6 1000 0 "17.2" 0] z
  show ?thesis
    by (simp add: Let_def py_int_def)
qed

end
